theory Spec2Isabelle
  imports Main "HOL-Library.Word"
begin

section \<open>TCP AZS congestion control (src/src/tcp_azs.c)\<close>

text \<open>
  The module is a set of hooks that the TCP stack calls with a pointer to the
  socket. Each hook reaches two pieces of the socket: the send window
  \<^verbatim>\<open>tcp_sk(sk)->snd_cwnd\<close> and the private congestion-control area
  \<^verbatim>\<open>inet_csk_ca(sk)\<close>, read as a \<^verbatim>\<open>struct azs\<close>. A hook is modelled as a
  function from the socket before the call to the socket after it.
\<close>

subsection \<open>Data\<close>

type_synonym u8 = "8 word"
type_synonym u32 = "32 word"
type_synonym s32 = "32 word"

text \<open>
  \<^verbatim>\<open>struct azs\<close> declares \<^verbatim>\<open>azs_en\<close>, \<^verbatim>\<open>if_cong\<close>, \<^verbatim>\<open>rtt_min\<close> and \<^verbatim>\<open>rtt\<close>.
  \<^verbatim>\<open>tcp_azs_cong_avoid\<close> reads a fifth member, \<^verbatim>\<open>azs->ezs_en\<close>, which the
  struct does not declare and no function writes. It is kept as a field of
  its own, of the width of its sibling \<^verbatim>\<open>azs_en\<close>, so that the guard of
  \<^verbatim>\<open>tcp_azs_cong_avoid\<close> reads what the source names.
\<close>

record azs =
  azs_en :: u8
  if_cong :: u8
  rtt_min :: u32
  rtt :: u32
  ezs_en :: u8

record sock =
  snd_cwnd :: u32
  inet_csk_ca :: azs

definition TCP_AZS_INIT_RTT :: u32 where
  "TCP_AZS_INIT_RTT = 1000000"

definition DEFAULT_AZS_WINDOW_SIZE :: u32 where
  "DEFAULT_AZS_WINDOW_SIZE = 65000"

subsection \<open>Hooks\<close>

definition tcp_azs_init :: "sock \<Rightarrow> sock" where
  "tcp_azs_init sk =
     (let azs = inet_csk_ca sk;
          azs = azs\<lparr>azs_en := 1\<rparr>;
          azs = azs\<lparr>if_cong := 0\<rparr>;
          azs = azs\<lparr>rtt_min := TCP_AZS_INIT_RTT\<rparr>;
          azs = azs\<lparr>rtt := TCP_AZS_INIT_RTT\<rparr>
      in sk\<lparr>inet_csk_ca := azs\<rparr>)"

text \<open>
  \<^verbatim>\<open>rtt_us\<close> is an \<^verbatim>\<open>s32\<close>: 32 bits read as two's complement (\<open>sint\<close>).
  The test \<^verbatim>\<open>rtt_us > 0\<close> is the signed comparison \<open><s\<close>, the store into the
  \<^verbatim>\<open>u32\<close> field keeps the 32 bits, and \<^verbatim>\<open>min\<close> compares two \<^verbatim>\<open>u32\<close> values
  as unsigned numbers.
\<close>

definition tcp_azs_pkts_acked :: "sock \<Rightarrow> u32 \<Rightarrow> s32 \<Rightarrow> sock" where
  "tcp_azs_pkts_acked sk cnt rtt_us =
     (let azs = inet_csk_ca sk;
          azs = (if 0 <s rtt_us then azs\<lparr>rtt := rtt_us\<rparr> else azs);
          azs = azs\<lparr>rtt_min := min (rtt_min azs) (rtt azs)\<rparr>
      in sk\<lparr>inet_csk_ca := azs, snd_cwnd := DEFAULT_AZS_WINDOW_SIZE\<rparr>)"

text \<open>
  The two hooks that return a value take the socket pointer as well; they
  are modelled as returning the value together with the socket after the
  call.
\<close>

definition tcp_azs_undo_cwnd :: "sock \<Rightarrow> u32 \<times> sock" where
  "tcp_azs_undo_cwnd sk = (DEFAULT_AZS_WINDOW_SIZE, sk)"

definition tcp_azs_state :: "sock \<Rightarrow> u8 \<Rightarrow> sock" where
  "tcp_azs_state sk ca_state =
     (let azs = inet_csk_ca sk;
          azs = azs\<lparr>azs_en := 1\<rparr>
      in sk\<lparr>inet_csk_ca := azs\<rparr>)"

text \<open>
  \<^verbatim>\<open>enum tcp_ca_event\<close> is declared by the kernel headers, not by this module,
  and the hook never inspects it: the event is a value of an arbitrary type.
\<close>

definition tcp_azs_cwnd_event :: "sock \<Rightarrow> 'e \<Rightarrow> sock" where
  "tcp_azs_cwnd_event sk event = sk\<lparr>snd_cwnd := DEFAULT_AZS_WINDOW_SIZE\<rparr>"

text \<open>
  \<^verbatim>\<open>tcp_veno_cong_avoid\<close> belongs to the kernel's Veno module. It is passed in
  as the parameter \<open>tcp_veno_cong_avoid\<close>: a function from the socket and the
  two arguments to the socket it leaves behind.
\<close>

definition tcp_azs_cong_avoid ::
  "(sock \<Rightarrow> u32 \<Rightarrow> u32 \<Rightarrow> sock) \<Rightarrow> sock \<Rightarrow> u32 \<Rightarrow> u32 \<Rightarrow> sock" where
  "tcp_azs_cong_avoid tcp_veno_cong_avoid sk ack acked =
     (let azs = inet_csk_ca sk
      in if ezs_en azs = 0 then tcp_veno_cong_avoid sk ack acked
         else sk\<lparr>snd_cwnd := DEFAULT_AZS_WINDOW_SIZE\<rparr>)"

definition tcp_azs_ssthresh :: "sock \<Rightarrow> u32 \<times> sock" where
  "tcp_azs_ssthresh sk = (DEFAULT_AZS_WINDOW_SIZE, sk)"

subsection \<open>The hooks as the stack calls them\<close>

text \<open>
  \<^verbatim>\<open>tcp_azs\<close> registers the hooks: \<^verbatim>\<open>.init\<close> runs once, when the connection
  takes up the algorithm; the other six are called afterwards, in any order
  and any number of times. A call of one of the six is a value of \<open>hook\<close>,
  \<open>tcp_azs\<close> dispatches it, and \<open>run\<close> applies a sequence of calls from left
  to right.
\<close>

datatype 'e hook =
    Ssthresh
  | Cong_avoid u32 u32
  | Cwnd_event 'e
  | Pkts_acked u32 s32
  | Set_state u8
  | Undo_cwnd

fun tcp_azs :: "(sock \<Rightarrow> u32 \<Rightarrow> u32 \<Rightarrow> sock) \<Rightarrow> sock \<Rightarrow> 'e hook \<Rightarrow> sock" where
  "tcp_azs veno sk Ssthresh = snd (tcp_azs_ssthresh sk)"
| "tcp_azs veno sk (Cong_avoid ack acked) = tcp_azs_cong_avoid veno sk ack acked"
| "tcp_azs veno sk (Cwnd_event event) = tcp_azs_cwnd_event sk event"
| "tcp_azs veno sk (Pkts_acked cnt rtt_us) = tcp_azs_pkts_acked sk cnt rtt_us"
| "tcp_azs veno sk (Set_state ca_state) = tcp_azs_state sk ca_state"
| "tcp_azs veno sk Undo_cwnd = snd (tcp_azs_undo_cwnd sk)"

definition run :: "(sock \<Rightarrow> u32 \<Rightarrow> u32 \<Rightarrow> sock) \<Rightarrow> 'e hook list \<Rightarrow> sock \<Rightarrow> sock" where
  "run veno hs sk = foldl (tcp_azs veno) sk hs"

text \<open>
  A run of \<^verbatim>\<open>tcp_azs_pkts_acked\<close> calls alone, each with its own \<^verbatim>\<open>cnt\<close> and
  \<^verbatim>\<open>rtt_us\<close>.
\<close>

definition pkts_acked_seq :: "sock \<Rightarrow> (u32 \<times> s32) list \<Rightarrow> sock" where
  "pkts_acked_seq sk acks =
     foldl (\<lambda>sk (cnt, rtt_us). tcp_azs_pkts_acked sk cnt rtt_us) sk acks"

text \<open>
  The Veno module is outside this program. The properties of the states a
  connection reaches are proved for a fallback that leaves the private area
  of this module alone, whatever it does to the rest of the socket.
\<close>

definition keeps_ca :: "(sock \<Rightarrow> u32 \<Rightarrow> u32 \<Rightarrow> sock) \<Rightarrow> bool" where
  "keeps_ca veno \<longleftrightarrow> (\<forall>sk ack acked. inet_csk_ca (veno sk ack acked) = inet_csk_ca sk)"

subsection \<open>Sample inputs\<close>

text \<open>
  Concrete sockets, fallbacks and calls at which the hooks are evaluated
  below. \<open>sample_sock\<close> is a socket before \<^verbatim>\<open>tcp_azs_init\<close>, its private area
  all zero and its window at 10; \<open>sample_sock_flagged\<close> differs in \<open>if_cong\<close>.
  \<open>idle_veno\<close> is a fallback that returns without touching the socket,
  \<open>sample_veno\<close> one that grows the window by \<open>acked\<close>.
\<close>

definition sample_sock :: sock where
  "sample_sock =
     \<lparr>snd_cwnd = 10,
      inet_csk_ca = \<lparr>azs_en = 0, if_cong = 0, rtt_min = 0, rtt = 0, ezs_en = 0\<rparr>\<rparr>"

definition sample_sock_flagged :: sock where
  "sample_sock_flagged =
     \<lparr>snd_cwnd = 10,
      inet_csk_ca = \<lparr>azs_en = 0, if_cong = 1, rtt_min = 0, rtt = 0, ezs_en = 0\<rparr>\<rparr>"

definition idle_veno :: "sock \<Rightarrow> u32 \<Rightarrow> u32 \<Rightarrow> sock" where
  "idle_veno sk ack acked = sk"

definition sample_veno :: "sock \<Rightarrow> u32 \<Rightarrow> u32 \<Rightarrow> sock" where
  "sample_veno sk ack acked = sk\<lparr>snd_cwnd := snd_cwnd sk + acked\<rparr>"

definition sample_calls :: "nat hook list" where
  "sample_calls =
     [Pkts_acked 5 50000, Set_state 4, Cong_avoid 100 2, Cwnd_event 3,
      Pkts_acked 1 20000, Ssthresh, Undo_cwnd]"

section \<open>Properties\<close>

subsection \<open>Auxiliary facts\<close>

lemmas hook_defs =
  tcp_azs_ssthresh_def tcp_azs_cong_avoid_def tcp_azs_cwnd_event_def
  tcp_azs_pkts_acked_def tcp_azs_state_def tcp_azs_undo_cwnd_def

text \<open>A positive \<^verbatim>\<open>s32\<close> stored into a \<^verbatim>\<open>u32\<close> is the same number.\<close>

lemma pos_uint_sint: "uint r = sint r" if "0 < sint r" for r :: "32 word"
proof -
  from that have "0 \<le> sint r" by simp
  moreover have "sint r < 2 ^ 32" using sint_lt [of r] by simp
  ultimately have "take_bit 32 (sint r) = sint r" by (simp add: take_bit_int_eq_self)
  then show ?thesis using uint_sint [of r] by simp
qed

lemma uint_min: "uint (min a b) = min (uint a) (uint b)" for a b :: "32 word"
  by (simp add: min_def word_less_eq_iff_unsigned [where ?'a = int])

lemma run_Nil: "run veno [] sk = sk"
  by (simp add: run_def)

lemma run_snoc: "run veno (hs @ [h]) sk = tcp_azs veno (run veno hs sk) h"
  by (simp add: run_def)

lemma pkts_acked_seq_snoc:
  "pkts_acked_seq sk (acks @ [(cnt, r)]) = tcp_azs_pkts_acked (pkts_acked_seq sk acks) cnt r"
  by (simp add: pkts_acked_seq_def)

text \<open>What one call does to the three fields the invariants are about.\<close>

lemma step_if_cong:
  "keeps_ca veno \<Longrightarrow> if_cong (inet_csk_ca (tcp_azs veno sk h)) = if_cong (inet_csk_ca sk)"
  by (cases h) (simp_all add: keeps_ca_def hook_defs Let_def)

lemma step_mono:
  "keeps_ca veno \<Longrightarrow> rtt_min (inet_csk_ca (tcp_azs veno sk h)) \<le> rtt_min (inet_csk_ca sk)"
  by (cases h) (simp_all add: keeps_ca_def hook_defs Let_def)

lemma step_inv:
  "keeps_ca veno \<Longrightarrow> rtt_min (inet_csk_ca sk) \<le> rtt (inet_csk_ca sk) \<Longrightarrow>
   rtt_min (inet_csk_ca (tcp_azs veno sk h)) \<le> rtt (inet_csk_ca (tcp_azs veno sk h))"
  by (cases h) (simp_all add: keeps_ca_def hook_defs Let_def)

lemma run_if_cong:
  "keeps_ca veno \<Longrightarrow> if_cong (inet_csk_ca (run veno hs sk)) = if_cong (inet_csk_ca sk)"
  by (induction hs rule: rev_induct) (simp_all add: run_Nil run_snoc step_if_cong)

lemma run_inv:
  "keeps_ca veno \<Longrightarrow> rtt_min (inet_csk_ca sk) \<le> rtt (inet_csk_ca sk) \<Longrightarrow>
   rtt_min (inet_csk_ca (run veno hs sk)) \<le> rtt (inet_csk_ca (run veno hs sk))"
  by (induction hs rule: rev_induct) (simp_all add: run_Nil run_snoc step_inv)

lemma run_mono:
  "keeps_ca veno \<Longrightarrow>
   rtt_min (inet_csk_ca (run veno (hs @ hs') sk)) \<le> rtt_min (inet_csk_ca (run veno hs sk))"
proof (induction hs' rule: rev_induct)
  case Nil
  then show ?case by simp
next
  case (snoc h hs')
  have "rtt_min (inet_csk_ca (run veno (hs @ hs' @ [h]) sk))
        \<le> rtt_min (inet_csk_ca (run veno (hs @ hs') sk))"
    using snoc.prems step_mono [of veno "run veno (hs @ hs') sk" h]
    by (simp add: run_snoc [of veno "hs @ hs'" h sk, simplified])
  with snoc show ?case by simp
qed

lemma init_inv:
  "rtt_min (inet_csk_ca (tcp_azs_init sk)) \<le> rtt (inet_csk_ca (tcp_azs_init sk))"
  by (simp add: tcp_azs_init_def)

text \<open>
  A run of acknowledgements with positive samples, from any socket: the
  minimum so far is the least of the starting minimum and the samples, and the
  last sample is the one kept in \<open>rtt\<close>.
\<close>

lemma pkts_acked_seq_tracks:
  assumes "\<forall>a\<in>set acks. 0 < sint (snd a)"
  shows "uint (rtt_min (inet_csk_ca (pkts_acked_seq sk acks)))
           = Min (insert (uint (rtt_min (inet_csk_ca sk))) (sint ` snd ` set acks))
         \<and> (acks \<noteq> [] \<longrightarrow> rtt (inet_csk_ca (pkts_acked_seq sk acks)) = snd (last acks))"
  using assms
proof (induction acks rule: rev_induct)
  case Nil
  then show ?case by (simp add: pkts_acked_seq_def)
next
  case (snoc a acks)
  obtain cnt r where a: "a = (cnt, r)" by (cases a)
  let ?s = "pkts_acked_seq sk acks"
  from snoc.prems a have pos: "0 < sint r" by simp
  from snoc have IH: "uint (rtt_min (inet_csk_ca ?s))
      = Min (insert (uint (rtt_min (inet_csk_ca sk))) (sint ` snd ` set acks))" by simp
  have step: "inet_csk_ca (tcp_azs_pkts_acked ?s cnt r)
      = (inet_csk_ca ?s)\<lparr>rtt := r, rtt_min := min (rtt_min (inet_csk_ca ?s)) r\<rparr>"
    using pos by (simp add: tcp_azs_pkts_acked_def Let_def word_sless_alt)
  have "uint (min (rtt_min (inet_csk_ca ?s)) r) = min (uint (rtt_min (inet_csk_ca ?s))) (sint r)"
    using pos by (simp add: uint_min pos_uint_sint)
  also have "\<dots> = Min (insert (sint r)
      (insert (uint (rtt_min (inet_csk_ca sk))) (sint ` snd ` set acks)))"
    by (simp add: IH min.commute)
  finally show ?case
    by (simp add: a pkts_acked_seq_snoc step insert_commute)
qed

text \<open>
  Two of the three hooks that write the window do so in every state, and
  \<^verbatim>\<open>tcp_azs_cong_avoid\<close> does so when \<open>ezs_en\<close> is not zero.
\<close>

lemma pkts_acked_forces_window:
  "snd_cwnd (tcp_azs_pkts_acked sk cnt rtt_us) = DEFAULT_AZS_WINDOW_SIZE"
  by (simp add: tcp_azs_pkts_acked_def Let_def)

lemma cwnd_event_forces_window:
  "snd_cwnd (tcp_azs_cwnd_event sk event) = DEFAULT_AZS_WINDOW_SIZE"
  by (simp add: tcp_azs_cwnd_event_def)

lemma cong_avoid_forces_window:
  "ezs_en (inet_csk_ca sk) \<noteq> 0 \<Longrightarrow>
   snd_cwnd (tcp_azs_cong_avoid veno sk ack acked) = DEFAULT_AZS_WINDOW_SIZE"
  by (simp add: tcp_azs_cong_avoid_def)


text \<open>
  No hook stores into \<open>ezs_en\<close>: it keeps, through \<^verbatim>\<open>tcp_azs_init\<close> and every
  call after it, the value the private area held before.
\<close>

lemma init_ezs_en:
  "ezs_en (inet_csk_ca (tcp_azs_init sk)) = ezs_en (inet_csk_ca sk)"
  by (simp add: tcp_azs_init_def)

lemma step_ezs_en:
  "keeps_ca veno \<Longrightarrow> ezs_en (inet_csk_ca (tcp_azs veno sk h)) = ezs_en (inet_csk_ca sk)"
  by (cases h) (simp_all add: keeps_ca_def hook_defs Let_def)

lemma run_ezs_en:
  "keeps_ca veno \<Longrightarrow> ezs_en (inet_csk_ca (run veno hs sk)) = ezs_en (inet_csk_ca sk)"
  by (induction hs rule: rev_induct) (simp_all add: run_Nil run_snoc step_ezs_en)

subsection \<open>Connection init\<close>

text \<open>
  C6. After \<^verbatim>\<open>tcp_azs_init\<close>, from every prior state, \<open>rtt\<close> and \<open>rtt_min\<close> both
  equal \<^verbatim>\<open>TCP_AZS_INIT_RTT\<close>, which is 1000000 microseconds (one second),
  \<open>azs_en\<close> is 1 and \<open>if_cong\<close> is 0.
\<close>

theorem tcp_azs_init_state:
  "rtt (inet_csk_ca (tcp_azs_init sk)) = TCP_AZS_INIT_RTT
   \<and> rtt_min (inet_csk_ca (tcp_azs_init sk)) = TCP_AZS_INIT_RTT
   \<and> unat TCP_AZS_INIT_RTT = 1000000
   \<and> azs_en (inet_csk_ca (tcp_azs_init sk)) = 1
   \<and> if_cong (inet_csk_ca (tcp_azs_init sk)) = 0"
  by (simp add: tcp_azs_init_def TCP_AZS_INIT_RTT_def)

subsection \<open>The window under the override\<close>

text \<open>
  C1. With \<open>azs_en\<close> set, every call of \<^verbatim>\<open>tcp_azs_pkts_acked\<close>,
  \<^verbatim>\<open>tcp_azs_cong_avoid\<close> or \<^verbatim>\<open>tcp_azs_cwnd_event\<close> should leave \<open>snd_cwnd\<close> at
  65000. The guard of \<^verbatim>\<open>tcp_azs_cong_avoid\<close> reads \<open>ezs_en\<close>, not \<open>azs_en\<close>:
  on a socket fresh from \<^verbatim>\<open>tcp_azs_init\<close>, where \<open>azs_en\<close> is 1 and \<open>ezs_en\<close> is
  0 as it was before, the hook hands over to the fallback, and with a fallback
  that returns without touching the socket the window stays at 10.
\<close>

theorem cong_avoid_ignores_azs_en:
  "azs_en (inet_csk_ca (tcp_azs_init sample_sock)) = 1
   \<and> snd_cwnd (tcp_azs_cong_avoid idle_veno (tcp_azs_init sample_sock) 100 2) = 10
   \<and> DEFAULT_AZS_WINDOW_SIZE \<noteq> 10"
  by (simp add: tcp_azs_init_def tcp_azs_cong_avoid_def DEFAULT_AZS_WINDOW_SIZE_def
      sample_sock_def idle_veno_def)



subsection \<open>RTT bookkeeping\<close>

text \<open>
  C3. Start from the state \<^verbatim>\<open>tcp_azs_init\<close> produces and call
  \<^verbatim>\<open>tcp_azs_pkts_acked\<close> with strictly positive samples \<open>r1 .. rn\<close>. After the
  \<open>i\<close>-th call \<open>rtt_min\<close> is the minimum of \<^verbatim>\<open>TCP_AZS_INIT_RTT\<close> and
  \<open>r1 .. ri\<close>, and \<open>rtt\<close> is \<open>ri\<close>, the latest sample.
\<close>

theorem pkts_acked_rtt_tracking:
  assumes "\<forall>a\<in>set acks. 0 < sint (snd a)" and "i \<le> length acks"
  shows "uint (rtt_min (inet_csk_ca (pkts_acked_seq (tcp_azs_init sk) (take i acks))))
           = Min (insert (uint TCP_AZS_INIT_RTT) (sint ` snd ` set (take i acks)))
         \<and> (0 < i \<longrightarrow> rtt (inet_csk_ca (pkts_acked_seq (tcp_azs_init sk) (take i acks)))
                = snd (acks ! (i - 1)))"
proof -
  from assms(1) have pos: "\<forall>a\<in>set (take i acks). 0 < sint (snd a)"
    by (auto dest: in_set_takeD)
  have init: "rtt_min (inet_csk_ca (tcp_azs_init sk)) = TCP_AZS_INIT_RTT"
    by (simp add: tcp_azs_init_def)
  have "last (take i acks) = acks ! (i - 1)" if "0 < i"
  proof -
    from that assms(2) have ne: "take i acks \<noteq> []" by auto
    from that assms(2) show ?thesis
      by (simp add: last_conv_nth [OF ne] min_absorb2)
  qed
  with pkts_acked_seq_tracks [OF pos, of "tcp_azs_init sk"] assms(2) show ?thesis
    by (auto simp: init)
qed

theorem pkts_acked_rtt_tracking_witness:
  "0 < sint (50000::s32) \<and> 0 < sint (20000::s32) \<and> 0 < sint (70000::s32)
   \<and> (2::nat) \<le> length [(5::u32, 50000::s32), (3, 20000), (1, 70000)]
   \<and> uint (rtt_min (inet_csk_ca (pkts_acked_seq (tcp_azs_init sample_sock)
        [(5, 50000), (3, 20000)]))) = 20000
   \<and> rtt (inet_csk_ca (pkts_acked_seq (tcp_azs_init sample_sock)
        [(5, 50000), (3, 20000)])) = 20000"
proof -
  have pos: "\<forall>a\<in>set [(5::u32, 50000::s32), (3, 20000), (1, 70000)]. 0 < sint (snd a)"
    by simp
  have len: "(2::nat) \<le> length [(5::u32, 50000::s32), (3, 20000), (1, 70000)]"
    by simp
  show ?thesis
    using pos pkts_acked_rtt_tracking [OF pos len, of sample_sock]
    by (simp add: TCP_AZS_INIT_RTT_def)
qed

text \<open>
  C4. In every state a connection reaches after \<^verbatim>\<open>tcp_azs_init\<close>, a call of
  \<^verbatim>\<open>tcp_azs_pkts_acked\<close> whose sample is not positive (\<open>rtt_us \<le> 0\<close> as a signed
  number) leaves \<open>rtt\<close> and \<open>rtt_min\<close> as they were.
\<close>

theorem pkts_acked_no_sample_keeps_rtt:
  assumes "keeps_ca veno" and "sint rtt_us \<le> 0"
  shows "rtt (inet_csk_ca (tcp_azs_pkts_acked (run veno hs (tcp_azs_init sk)) cnt rtt_us))
           = rtt (inet_csk_ca (run veno hs (tcp_azs_init sk)))
         \<and> rtt_min (inet_csk_ca (tcp_azs_pkts_acked (run veno hs (tcp_azs_init sk)) cnt rtt_us))
           = rtt_min (inet_csk_ca (run veno hs (tcp_azs_init sk)))"
proof -
  from assms(2) have "\<not> 0 <s rtt_us" by (simp add: word_sless_alt)
  moreover have "rtt_min (inet_csk_ca (run veno hs (tcp_azs_init sk)))
        \<le> rtt (inet_csk_ca (run veno hs (tcp_azs_init sk)))"
    by (rule run_inv [OF assms(1) init_inv])
  ultimately show ?thesis
    by (simp add: tcp_azs_pkts_acked_def Let_def min_absorb1)
qed

theorem pkts_acked_no_sample_keeps_rtt_witness:
  "keeps_ca sample_veno \<and> sint (- 1 :: s32) \<le> 0
   \<and> rtt (inet_csk_ca (run sample_veno sample_calls (tcp_azs_init sample_sock))) = 20000
   \<and> rtt (inet_csk_ca (tcp_azs_pkts_acked
         (run sample_veno sample_calls (tcp_azs_init sample_sock)) 3 (- 1))) = 20000
   \<and> rtt_min (inet_csk_ca (tcp_azs_pkts_acked
         (run sample_veno sample_calls (tcp_azs_init sample_sock)) 3 (- 1))) = 20000"
proof -
  have k: "keeps_ca sample_veno" by (simp add: keeps_ca_def sample_veno_def)
  have n: "sint (- 1 :: s32) \<le> 0" by simp
  have r: "inet_csk_ca (run sample_veno sample_calls (tcp_azs_init sample_sock))
      = \<lparr>azs_en = 1, if_cong = 0, rtt_min = 20000, rtt = 20000, ezs_en = 0\<rparr>"
    by (simp add: run_def hook_defs tcp_azs_init_def TCP_AZS_INIT_RTT_def Let_def
        word_sless_alt sample_sock_def sample_veno_def sample_calls_def)
  show ?thesis
    using k n pkts_acked_no_sample_keeps_rtt [OF k n, of sample_calls sample_sock 3]
    by (simp add: r)
qed

text \<open>
  C5. In every state a connection reaches after \<^verbatim>\<open>tcp_azs_init\<close>,
  \<open>rtt_min \<le> rtt\<close>; and \<open>rtt_min\<close> never grows: not across the next call,
  whichever hook it is, and not across any further sequence of calls.
\<close>

theorem rtt_min_lower_envelope:
  assumes "keeps_ca veno"
  shows "rtt_min (inet_csk_ca (run veno hs (tcp_azs_init sk)))
           \<le> rtt (inet_csk_ca (run veno hs (tcp_azs_init sk)))
         \<and> rtt_min (inet_csk_ca
               (tcp_azs veno (run veno hs (tcp_azs_init sk)) (h :: 'e hook)))
           \<le> rtt_min (inet_csk_ca (run veno (hs :: 'e hook list) (tcp_azs_init sk)))
         \<and> rtt_min (inet_csk_ca (run veno (hs @ hs') (tcp_azs_init sk)))
           \<le> rtt_min (inet_csk_ca (run veno hs (tcp_azs_init sk)))"
proof (intro conjI)
  show "rtt_min (inet_csk_ca (run veno hs (tcp_azs_init sk)))
          \<le> rtt (inet_csk_ca (run veno hs (tcp_azs_init sk)))"
    by (rule run_inv [OF assms init_inv])
  show "rtt_min (inet_csk_ca (tcp_azs veno (run veno hs (tcp_azs_init sk)) h))
          \<le> rtt_min (inet_csk_ca (run veno hs (tcp_azs_init sk)))"
    by (rule step_mono [OF assms])
  show "rtt_min (inet_csk_ca (run veno (hs @ hs') (tcp_azs_init sk)))
          \<le> rtt_min (inet_csk_ca (run veno hs (tcp_azs_init sk)))"
    by (rule run_mono [OF assms])
qed

theorem rtt_min_lower_envelope_witness:
  "keeps_ca sample_veno
   \<and> rtt_min (inet_csk_ca (run sample_veno sample_calls (tcp_azs_init sample_sock)))
       \<le> rtt (inet_csk_ca (run sample_veno sample_calls (tcp_azs_init sample_sock)))
   \<and> rtt_min (inet_csk_ca (tcp_azs sample_veno
         (run sample_veno sample_calls (tcp_azs_init sample_sock))
         (Pkts_acked 2 9000 :: nat hook)))
       \<le> rtt_min (inet_csk_ca (run sample_veno sample_calls (tcp_azs_init sample_sock)))
   \<and> rtt_min (inet_csk_ca (run sample_veno (sample_calls @ [Pkts_acked 2 9000, Set_state 0])
         (tcp_azs_init sample_sock)))
       \<le> rtt_min (inet_csk_ca (run sample_veno sample_calls (tcp_azs_init sample_sock)))"
proof -
  have k: "keeps_ca sample_veno" by (simp add: keeps_ca_def sample_veno_def)
  show ?thesis
    using k rtt_min_lower_envelope [OF k, of sample_calls sample_sock "Pkts_acked 2 9000"
        "[Pkts_acked 2 9000, Set_state 0]"]
    by blast
qed

subsection \<open>State-change notification and the two flags\<close>

text \<open>
  C7, as amended. For every \<open>ca_state\<close>, \<^verbatim>\<open>tcp_azs_state\<close> leaves \<open>if_cong\<close> at
  the value it had before the call: the hook does not set it.
\<close>

theorem tcp_azs_state_keeps_if_cong:
  "if_cong (inet_csk_ca (tcp_azs_state sk ca_state)) = if_cong (inet_csk_ca sk)"
  by (simp add: tcp_azs_state_def)

text \<open>
  C7 as stated fails: on a socket fresh from \<^verbatim>\<open>tcp_azs_init\<close>, a notification
  of state 4 (loss) leaves \<open>if_cong\<close> at 0.
\<close>

theorem tcp_azs_state_if_cong_counterexample:
  "if_cong (inet_csk_ca (tcp_azs_state (tcp_azs_init sample_sock) 4)) = 0"
  by (simp add: tcp_azs_state_def tcp_azs_init_def)

text \<open>
  C10. For every \<open>ca_state\<close> and every prior state, \<^verbatim>\<open>tcp_azs_state\<close> sets
  \<open>azs_en\<close> to 1, also when it was 0 before.
\<close>

theorem tcp_azs_state_enables:
  "azs_en (inet_csk_ca (tcp_azs_state sk ca_state)) = 1"
  by (simp add: tcp_azs_state_def)

text \<open>
  C9. In every state a connection reaches after \<^verbatim>\<open>tcp_azs_init\<close>, \<open>if_cong\<close> is
  0: init clears it and no hook, \<^verbatim>\<open>tcp_azs_state\<close> included, writes it.
\<close>

theorem if_cong_stays_clear:
  assumes "keeps_ca veno"
  shows "if_cong (inet_csk_ca (run veno hs (tcp_azs_init sk))) = 0"
  using run_if_cong [OF assms, of hs "tcp_azs_init sk"]
  by (simp add: tcp_azs_init_def)

theorem if_cong_stays_clear_witness:
  "keeps_ca sample_veno
   \<and> if_cong (inet_csk_ca sample_sock_flagged) = 1
   \<and> if_cong (inet_csk_ca (run sample_veno sample_calls (tcp_azs_init sample_sock_flagged)))
       = 0"
proof -
  have k: "keeps_ca sample_veno" by (simp add: keeps_ca_def sample_veno_def)
  show ?thesis
    using k if_cong_stays_clear [OF k, of sample_calls sample_sock_flagged]
    by (simp add: sample_sock_flagged_def)
qed

subsection \<open>The constant answers\<close>

text \<open>
  C8. \<^verbatim>\<open>tcp_azs_undo_cwnd\<close> and \<^verbatim>\<open>tcp_azs_ssthresh\<close> return
  \<^verbatim>\<open>DEFAULT_AZS_WINDOW_SIZE\<close>, which is 65000, in every state, and return the
  socket as they received it.
\<close>

theorem undo_cwnd_ssthresh_constant:
  "tcp_azs_undo_cwnd sk = (DEFAULT_AZS_WINDOW_SIZE, sk)
   \<and> tcp_azs_ssthresh sk = (DEFAULT_AZS_WINDOW_SIZE, sk)
   \<and> unat DEFAULT_AZS_WINDOW_SIZE = 65000"
  by (simp add: tcp_azs_undo_cwnd_def tcp_azs_ssthresh_def DEFAULT_AZS_WINDOW_SIZE_def)

end
